theory Spec2Isabelle
  imports Main "HOL-Library.Word"
begin

section \<open>Data model (types.ts)\<close>

text \<open>
  The string enum \<open>AppStep\<close> of types.ts. Its members are the nine below; there is a
  member \<open>CARD_BACK\<close> and there is no member \<open>LIGHT_4\<close>.
\<close>

datatype AppStep = HOME | START | NAME | CAROUSEL | CARD_BACK | LIGHT_1 | LIGHT_2 | LIGHT_3 | END

text \<open>The enum object: member name and member, in declaration order.\<close>

definition AppStep_enum :: "(string \<times> AppStep) list" where
  "AppStep_enum =
     [(''HOME'', HOME), (''START'', START), (''NAME'', NAME), (''CAROUSEL'', CAROUSEL),
      (''CARD_BACK'', CARD_BACK), (''LIGHT_1'', LIGHT_1), (''LIGHT_2'', LIGHT_2),
      (''LIGHT_3'', LIGHT_3), (''END'', END)]"

text \<open>
  The expression \<open>AppStep.X\<close>: a property read on the enum object. For a name that is
  not a member the read gives \<open>undefined\<close>, which is \<open>None\<close> here. The App is
  transpiled without its types, so a step value at run time is a member or \<open>undefined\<close>.
\<close>

definition AppStep_member :: "string \<Rightarrow> AppStep option" where
  "AppStep_member k = map_of AppStep_enum k"

text \<open>\<open>AppStep.LIGHT_4\<close>, which the App reads in four places.\<close>

definition AppStep_LIGHT_4 :: "AppStep option" where
  "AppStep_LIGHT_4 = AppStep_member ''LIGHT_4''"

text \<open>A JavaScript string: its UTF-16 code units.\<close>

type_synonym jsstring = "nat list"

record UserState =
  name :: jsstring
  solvedCards :: "int list"
  finalSolved :: bool

text \<open>\<open>CardConfig\<close>; its field \<open>id\<close> is \<open>card_id\<close> here.\<close>

record CardConfig =
  card_id :: int
  answer :: jsstring

section \<open>Imported constants and platform functions\<close>

text \<open>
  The module \<open>./constants\<close> (TEST_MODE, TARGET_DATE, CARDS_CONFIG, FINAL_ANSWER) is
  taken as a parameter. \<open>TARGET_DATE\<close> stands for \<open>new Date(TARGET_DATE).getTime()\<close>:
  milliseconds, or \<open>None\<close> for the NaN of an invalid date.
\<close>

record constants =
  TEST_MODE :: bool
  TARGET_DATE :: "int option"
  CARDS_CONFIG :: "CardConfig list"
  FINAL_ANSWER :: jsstring

text \<open>
  \<open>String.prototype.toLowerCase\<close>, \<open>TextEncoder.encode\<close> and
  \<open>crypto.subtle.digest('SHA-256', _)\<close> belong to the platform; the three are
  parameters. Nothing is assumed of them: \<open>toLowerCase\<close> follows the case tables of
  Unicode, with rules that depend on the neighbours of a letter.
\<close>

record platform =
  toLowerCase :: "jsstring \<Rightarrow> jsstring"
  encode :: "jsstring \<Rightarrow> 8 word list"
  sha256 :: "8 word list \<Rightarrow> 8 word list"

section \<open>String normalisation and hashing\<close>

text \<open>
  \<open>String.prototype.trim\<close> removes the code units of ECMAScript's WhiteSpace and
  LineTerminator productions from both ends.
\<close>

definition WhiteSpace :: "nat list" where
  "WhiteSpace =
     [9, 10, 11, 12, 13, 32, 160, 5760,
      8192, 8193, 8194, 8195, 8196, 8197, 8198, 8199, 8200, 8201, 8202,
      8232, 8233, 8239, 8287, 12288, 65279]"

definition isWhiteSpace :: "nat \<Rightarrow> bool" where
  "isWhiteSpace c = (c \<in> set WhiteSpace)"

definition trim :: "jsstring \<Rightarrow> jsstring" where
  "trim s = rev (dropWhile isWhiteSpace (rev (dropWhile isWhiteSpace s)))"

text \<open>\<open>b.toString(16).padStart(2, '0')\<close> for a byte \<open>b\<close>.\<close>

definition hex_digit :: "nat \<Rightarrow> nat" where
  "hex_digit d = (if d < 10 then 48 + d else 87 + d)"

definition hex_byte :: "8 word \<Rightarrow> jsstring" where
  "hex_byte b = [hex_digit (unat b div 16), hex_digit (unat b mod 16)]"

definition hashString :: "platform \<Rightarrow> jsstring \<Rightarrow> jsstring" where
  "hashString P text = concat (map hex_byte (sha256 P (encode P text)))"

text \<open>
  The two lines shared by \<open>submitCardAnswer\<close> and \<open>submitFinalAnswer\<close>:
  \<open>hashString(input.trim().toLowerCase())\<close>.
\<close>

definition hashedInput :: "platform \<Rightarrow> jsstring \<Rightarrow> jsstring" where
  "hashedInput P input = hashString P (toLowerCase P (trim input))"

section \<open>Component state (the useState cells of App)\<close>

text \<open>
  The text shown by the countdown: \<open>''\<close> at first, \<open>"00:00:00"\<close> once live, otherwise
  days, hours, minutes and seconds; \<open>TL_nan\<close> when the target date is invalid.
\<close>

datatype time_text = TL_blank | TL_zero | TL_dhms int int int int | TL_nan

record app_state =
  step :: "AppStep option"
  user :: UserState
  isTransitioning :: bool
  carouselIndex :: int
  activeCardId :: "int option"
  isExpanded :: bool
  isFlipped :: bool
  isAnimating :: bool
  inputName :: jsstring
  inputCardAnswer :: jsstring
  inputFinalAnswer :: jsstring
  shakeError :: bool
  isMusicPlaying :: bool
  isGameLive :: bool
  timeLeft :: time_text

text \<open>
  The functions the App hands to \<open>setTimeout\<close>, \<open>setInterval\<close>,
  \<open>requestAnimationFrame\<close> and \<open>await\<close>, each with the values its closure captured
  when it was created.
\<close>

datatype callback =
    ShakeOff
  | NameFade
  | CountdownTick
  | OpenFrame
  | OpenFlip
  | OpenUnlock
  | CloseShrink bool "int option" "int list"
  | CloseReset bool "int option" "int list"
  | SetStep "AppStep option"
  | CardHashed jsstring CardConfig app_state
  | FinalHashed jsstring

text \<open>What a handler or callback asks of the platform.\<close>

datatype request =
    Timeout int callback
  | Interval int callback
  | Frame callback
  | Await callback

definition visibleCount :: int where
  "visibleCount = 4"

section \<open>Handlers\<close>

text \<open>
  A handler called from a click belongs to the latest render, so what it reads is the
  current state; the state updates of one handler are applied together. A handler
  returns the new state and the requests it makes.
\<close>

definition handleError :: "app_state \<Rightarrow> app_state \<times> request list" where
  "handleError s = (s\<lparr>shakeError := True\<rparr>, [Timeout 500 ShakeOff])"

definition handleNameSubmit :: "app_state \<Rightarrow> app_state \<times> request list" where
  "handleNameSubmit s =
     (if trim (inputName s) = [] then (s, [])
      else (s\<lparr>user := (user s)\<lparr>name := trim (inputName s)\<rparr>, isTransitioning := True\<rparr>,
            [Timeout 1000 NameFade]))"

definition handlePrev :: "app_state \<Rightarrow> app_state" where
  "handlePrev s =
     (if carouselIndex s > 0 then s\<lparr>carouselIndex := carouselIndex s - 3\<rparr> else s)"

definition handleNext :: "constants \<Rightarrow> app_state \<Rightarrow> app_state" where
  "handleNext K s =
     (if carouselIndex s + visibleCount < int (length (CARDS_CONFIG K))
      then s\<lparr>carouselIndex := carouselIndex s + 3\<rparr> else s)"

definition openCard :: "int \<Rightarrow> app_state \<Rightarrow> app_state \<times> request list" where
  "openCard i s =
     (if isAnimating s then (s, [])
      else (s\<lparr>isAnimating := True, activeCardId := Some i, inputCardAnswer := []\<rparr>,
            [Frame OpenFrame]))"

text \<open>
  \<open>closeCard\<close> reads \<open>isAnimating\<close>, \<open>activeCardId\<close> and \<open>user.solvedCards\<close> from
  the render \<open>r\<close> its closure belongs to, and updates the current state \<open>s\<close>. For a
  click, \<open>r\<close> is \<open>s\<close>.
\<close>

definition closeCard :: "app_state \<Rightarrow> bool \<Rightarrow> app_state \<Rightarrow> app_state \<times> request list" where
  "closeCard r solved s =
     (if isAnimating r then (s, [])
      else (s\<lparr>isAnimating := True, isFlipped := False\<rparr>,
            [Timeout 600 (CloseShrink solved (activeCardId r) (solvedCards (user r)))]))"

definition submitCardAnswer :: "constants \<Rightarrow> platform \<Rightarrow> app_state \<Rightarrow> app_state \<times> request list" where
  "submitCardAnswer K P s =
     (case find (\<lambda>c. Some (card_id c) = activeCardId s) (CARDS_CONFIG K) of
        None \<Rightarrow> (s, [])
      | Some found \<Rightarrow> (s, [Await (CardHashed (hashedInput P (inputCardAnswer s)) found s)]))"

definition submitFinalAnswer :: "platform \<Rightarrow> app_state \<Rightarrow> app_state \<times> request list" where
  "submitFinalAnswer P s = (s, [Await (FinalHashed (hashedInput P (inputFinalAnswer s)))])"

text \<open>Truthiness of \<open>activeCardId\<close>: \<open>null\<close> and \<open>0\<close> are falsy.\<close>

definition truthy :: "int option \<Rightarrow> bool" where
  "truthy a = (case a of None \<Rightarrow> False | Some n \<Rightarrow> n \<noteq> 0)"

text \<open>
  Running a callback at clock \<open>t\<close> on the current state: the new state, the requests
  it makes, and whether it called \<open>clearInterval\<close> on its own interval.
\<close>

fun run_callback :: "constants \<Rightarrow> int \<Rightarrow> callback \<Rightarrow> app_state
    \<Rightarrow> app_state \<times> request list \<times> bool" where
  "run_callback K t ShakeOff s = (s\<lparr>shakeError := False\<rparr>, [], False)"
| "run_callback K t NameFade s =
     (s\<lparr>step := Some CAROUSEL, isTransitioning := False\<rparr>, [], False)"
| "run_callback K t CountdownTick s =
     (case TARGET_DATE K of
        None \<Rightarrow> (s\<lparr>timeLeft := TL_nan\<rparr>, [], False)
      | Some target \<Rightarrow>
          (let diff = target - t in
           if diff < 0 then (s\<lparr>isGameLive := True, timeLeft := TL_zero\<rparr>, [], True)
           else (s\<lparr>timeLeft := TL_dhms (diff div 86400000) (diff div 3600000 mod 24)
                                       (diff div 60000 mod 60) (diff div 1000 mod 60)\<rparr>,
                 [], False)))"
| "run_callback K t OpenFrame s = (s\<lparr>isExpanded := True\<rparr>, [Timeout 600 OpenFlip], False)"
| "run_callback K t OpenFlip s = (s\<lparr>isFlipped := True\<rparr>, [Timeout 600 OpenUnlock], False)"
| "run_callback K t OpenUnlock s = (s\<lparr>isAnimating := False\<rparr>, [], False)"
| "run_callback K t (CloseShrink solved a cs) s =
     (s\<lparr>isExpanded := False\<rparr>, [Timeout 600 (CloseReset solved a cs)], False)"
| "run_callback K t (CloseReset solved a cs) s =
     (let s1 = s\<lparr>activeCardId := None, isAnimating := False\<rparr> in
      case a of
        None \<Rightarrow> (s1, [], False)
      | Some n \<Rightarrow>
          if solved \<and> truthy a then
            (let newSolved = cs @ [n] in
             (s1\<lparr>user := (user s1)\<lparr>solvedCards := newSolved\<rparr>\<rparr>,
              if length newSolved = length (CARDS_CONFIG K)
              then [Timeout 800 (SetStep (Some LIGHT_1))] else [],
              False))
          else (s1, [], False))"
| "run_callback K t (SetStep x) s = (s\<lparr>step := x\<rparr>, [], False)"
| "run_callback K t (CardHashed h found r) s =
     (if h = answer found then (case closeCard r True s of (s', rs) \<Rightarrow> (s', rs, False))
      else (case handleError s of (s', rs) \<Rightarrow> (s', rs, False)))"
| "run_callback K t (FinalHashed h) s =
     (if h = FINAL_ANSWER K then (s\<lparr>step := AppStep_LIGHT_4\<rparr>, [], False)
      else (case handleError s of (s', rs) \<Rightarrow> (s', rs, False)))"

section \<open>What is rendered\<close>

text \<open>\<open>Array.prototype.slice(a, b)\<close>.\<close>

definition js_slice :: "'a list \<Rightarrow> int \<Rightarrow> int \<Rightarrow> 'a list" where
  "js_slice xs a b =
     (let n = int (length xs);
          lo = (if a < 0 then max (n + a) 0 else min a n);
          hi = (if b < 0 then max (n + b) 0 else min b n)
      in take (nat (hi - lo)) (drop (nat lo) xs))"

definition visibleCards :: "constants \<Rightarrow> app_state \<Rightarrow> CardConfig list" where
  "visibleCards K s = js_slice (CARDS_CONFIG K) (carouselIndex s) (carouselIndex s + visibleCount)"

definition shouldRenderGameLayer :: "app_state \<Rightarrow> bool" where
  "shouldRenderGameLayer s =
     (step s \<in> set [Some NAME, Some CAROUSEL, Some LIGHT_1, Some LIGHT_2, Some LIGHT_3,
                       AppStep_LIGHT_4, Some END])"

definition showCarouselUI :: "app_state \<Rightarrow> bool" where
  "showCarouselUI s = (step s = Some NAME \<or> step s = Some CAROUSEL)"

definition isGameLayerInteractive :: "app_state \<Rightarrow> bool" where
  "isGameLayerInteractive s = (step s \<noteq> Some NAME)"

text \<open>The \<open>disabled\<close> attributes of the two arrow buttons.\<close>

definition prev_disabled :: "app_state \<Rightarrow> bool" where
  "prev_disabled s = (carouselIndex s = 0)"

definition next_disabled :: "constants \<Rightarrow> app_state \<Rightarrow> bool" where
  "next_disabled K s = (carouselIndex s + visibleCount \<ge> int (length (CARDS_CONFIG K)))"

text \<open>The \<open>onClick\<close> of a card of the carousel.\<close>

definition clickCard :: "CardConfig \<Rightarrow> app_state \<Rightarrow> app_state \<times> request list" where
  "clickCard c s =
     (let isSolved = (card_id c \<in> set (solvedCards (user s)));
          isActive = (activeCardId s = Some (card_id c))
      in if isGameLayerInteractive s \<and> \<not> isActive \<and> \<not> isSolved
         then openCard (card_id c) s else (s, []))"

section \<open>Timers, effects and the event loop\<close>

text \<open>
  A pending task of the platform: a timeout, an interval (\<open>every = Some period\<close>), an
  animation-frame callback or the continuation of an \<open>await\<close>.
\<close>

record timer =
  tid :: nat
  due :: int
  every :: "int option"
  cb :: callback

text \<open>
  The mounted component: the clock (\<open>Date.now()\<close>), the state cells, the pending tasks
  in the order they were armed, and the cleanup function the countdown effect returned
  (\<open>Some i\<close> is \<open>() => clearInterval(i)\<close>). The effect that advances the light steps
  returns no cleanup function, so none is kept for it.
\<close>

record world =
  now :: int
  app :: app_state
  timers :: "timer list"
  next_tid :: nat
  countdown_cleanup :: "nat option"

text \<open>
  Arming a request. An animation-frame callback is queued for the current instant; the
  continuation of an \<open>await\<close> runs \<open>lat\<close> milliseconds later, where \<open>lat\<close> is how
  long the digest takes.
\<close>

definition enqueue :: "int \<Rightarrow> int option \<Rightarrow> callback \<Rightarrow> world \<Rightarrow> world" where
  "enqueue d p c w =
     w\<lparr>timers := timers w @ [\<lparr>tid = next_tid w, due = now w + d, every = p, cb = c\<rparr>],
       next_tid := Suc (next_tid w)\<rparr>"

fun arm :: "int \<Rightarrow> request \<Rightarrow> world \<Rightarrow> world" where
  "arm lat (Timeout d c) w = enqueue d None c w"
| "arm lat (Interval d c) w = enqueue d (Some d) c w"
| "arm lat (Frame c) w = enqueue 0 None c w"
| "arm lat (Await c) w = enqueue lat None c w"

definition clearInterval :: "nat \<Rightarrow> world \<Rightarrow> world" where
  "clearInterval i w = w\<lparr>timers := filter (\<lambda>x. tid x \<noteq> i) (timers w)\<rparr>"

text \<open>The countdown effect (dependency: \<open>isGameLive\<close>) and its cleanup.\<close>

definition countdown_effect :: "world \<Rightarrow> world" where
  "countdown_effect w =
     (if isGameLive (app w) then w\<lparr>countdown_cleanup := None\<rparr>
      else (arm 0 (Interval 1000 CountdownTick) w)\<lparr>countdown_cleanup := Some (next_tid w)\<rparr>)"

definition run_cleanup :: "world \<Rightarrow> world" where
  "run_cleanup w =
     (case countdown_cleanup w of
        None \<Rightarrow> w
      | Some i \<Rightarrow> (clearInterval i w)\<lparr>countdown_cleanup := None\<rparr>)"

text \<open>The light effect (dependency: \<open>step\<close>): three \<open>if\<close>s, each arming one timeout.\<close>

definition light_timers :: "AppStep option \<Rightarrow> request list" where
  "light_timers st =
     (if st = Some LIGHT_1 then [Timeout 2500 (SetStep (Some LIGHT_2))] else []) @
     (if st = Some LIGHT_2 then [Timeout 1200 (SetStep (Some LIGHT_3))] else []) @
     (if st = AppStep_LIGHT_4 then [Timeout 1200 (SetStep (Some END))] else [])"

definition light_effect :: "world \<Rightarrow> world" where
  "light_effect w = fold (arm 0) (light_timers (step (app w))) w"

text \<open>
  After a handler or a callback has run: the state updates are applied, its requests
  armed, and the effects whose dependency changed run again (the cleanup of the previous
  run first), in the order of their declaration.
\<close>

definition commit :: "int \<Rightarrow> app_state \<Rightarrow> request list \<Rightarrow> world \<Rightarrow> world" where
  "commit lat s' rs w =
     (let w1 = fold (arm lat) rs (w\<lparr>app := s'\<rparr>);
          w2 = (if isGameLive s' \<noteq> isGameLive (app w)
                then countdown_effect (run_cleanup w1) else w1)
      in if step s' \<noteq> step (app w) then light_effect w2 else w2)"

definition initial_state :: "constants \<Rightarrow> int \<Rightarrow> app_state" where
  "initial_state K t =
     \<lparr>step = Some HOME,
      user = \<lparr>name = [], solvedCards = [], finalSolved = False\<rparr>,
      isTransitioning = False, carouselIndex = 0, activeCardId = None,
      isExpanded = False, isFlipped = False, isAnimating = False,
      inputName = [], inputCardAnswer = [], inputFinalAnswer = [],
      shakeError = False, isMusicPlaying = False,
      isGameLive = (if TEST_MODE K then True
                    else (case TARGET_DATE K of None \<Rightarrow> False | Some target \<Rightarrow> target \<le> t)),
      timeLeft = TL_blank\<rparr>"

definition mount :: "constants \<Rightarrow> int \<Rightarrow> world" where
  "mount K t =
     light_effect (countdown_effect
       \<lparr>now = t, app = initial_state K t, timers = [], next_tid = 0,
        countdown_cleanup = None\<rparr>)"

text \<open>The pending task that is due first; among equals, the one armed first.\<close>

fun next_timer :: "timer list \<Rightarrow> timer option" where
  "next_timer [] = None"
| "next_timer (x # xs) =
     (case next_timer xs of
        None \<Rightarrow> Some x
      | Some y \<Rightarrow> if due y < due x then Some y else Some x)"

definition fire :: "constants \<Rightarrow> world \<Rightarrow> world option" where
  "fire K w =
     (case next_timer (timers w) of
        None \<Rightarrow> None
      | Some x \<Rightarrow>
          (let t = max (now w) (due x);
               rest = (case every x of
                         None \<Rightarrow> filter (\<lambda>y. tid y \<noteq> tid x) (timers w)
                       | Some p \<Rightarrow> map (\<lambda>y. if tid y = tid x then y\<lparr>due := due y + p\<rparr> else y) (timers w));
               w1 = w\<lparr>now := t, timers := rest\<rparr>
           in case run_callback K t (cb x) (app w1) of
                (s', rs, cleared) \<Rightarrow>
                  Some (commit 0 s' rs (if cleared then clearInterval (tid x) w1 else w1))))"

text \<open>
  What can happen to the mounted component: a user action on a control that is
  rendered and enabled, the next pending task running (\<open>Fire\<close>), or time passing with no
  task due (\<open>Elapse\<close>). \<open>ClickConfirm\<close> and \<open>ClickFinalSubmit\<close> carry the time the
  digest takes.
\<close>

datatype event =
    ClickHome | ClickStart | TypeName jsstring | ClickNameSubmit
  | ClickPrev | ClickNext | ClickCard nat
  | TypeCardAnswer jsstring | ClickConfirm int | ClickBack
  | TypeFinalAnswer jsstring | ClickFinalSubmit int
  | ToggleMusic | Fire | Elapse int

fun handle :: "constants \<Rightarrow> platform \<Rightarrow> event \<Rightarrow> app_state \<Rightarrow> (app_state \<times> request list) option" where
  "handle K P ClickHome s =
     (if step s = Some HOME \<and> isGameLive s then Some (s\<lparr>step := Some START\<rparr>, []) else None)"
| "handle K P ClickStart s =
     (if step s = Some START then Some (s\<lparr>step := Some NAME\<rparr>, []) else None)"
| "handle K P (TypeName v) s =
     (if step s = Some NAME then Some (s\<lparr>inputName := v\<rparr>, []) else None)"
| "handle K P ClickNameSubmit s =
     (if step s = Some NAME then Some (handleNameSubmit s) else None)"
| "handle K P ClickPrev s =
     (if shouldRenderGameLayer s \<and> showCarouselUI s \<and> \<not> prev_disabled s
      then Some (handlePrev s, []) else None)"
| "handle K P ClickNext s =
     (if shouldRenderGameLayer s \<and> showCarouselUI s \<and> \<not> next_disabled K s
      then Some (handleNext K s, []) else None)"
| "handle K P (ClickCard k) s =
     (if shouldRenderGameLayer s \<and> showCarouselUI s \<and> k < length (visibleCards K s)
      then Some (clickCard (visibleCards K s ! k) s) else None)"
| "handle K P (TypeCardAnswer v) s =
     (if shouldRenderGameLayer s \<and> showCarouselUI s \<and> activeCardId s \<noteq> None
      then Some (s\<lparr>inputCardAnswer := v\<rparr>, []) else None)"
| "handle K P (ClickConfirm lat) s =
     (if shouldRenderGameLayer s \<and> showCarouselUI s \<and> activeCardId s \<noteq> None \<and> 0 \<le> lat
      then Some (submitCardAnswer K P s) else None)"
| "handle K P ClickBack s =
     (if shouldRenderGameLayer s \<and> showCarouselUI s \<and> activeCardId s \<noteq> None
      then Some (closeCard s False s) else None)"
| "handle K P (TypeFinalAnswer v) s =
     (if shouldRenderGameLayer s \<and> step s = Some LIGHT_3
      then Some (s\<lparr>inputFinalAnswer := v\<rparr>, []) else None)"
| "handle K P (ClickFinalSubmit lat) s =
     (if shouldRenderGameLayer s \<and> step s = Some LIGHT_3 \<and> 0 \<le> lat
      then Some (submitFinalAnswer P s) else None)"
| "handle K P ToggleMusic s = Some (s\<lparr>isMusicPlaying := \<not> isMusicPlaying s\<rparr>, [])"
| "handle K P Fire s = None"
| "handle K P (Elapse d) s = None"

fun latency :: "event \<Rightarrow> int" where
  "latency (ClickConfirm lat) = lat"
| "latency (ClickFinalSubmit lat) = lat"
| "latency e = 0"

definition exec :: "constants \<Rightarrow> platform \<Rightarrow> event \<Rightarrow> world \<Rightarrow> world option" where
  "exec K P e w =
     (case e of
        Fire \<Rightarrow> fire K w
      | Elapse d \<Rightarrow>
          if 0 \<le> d \<and> list_all (\<lambda>x. now w + d \<le> due x) (timers w)
          then Some (w\<lparr>now := now w + d\<rparr>) else None
      | _ \<Rightarrow> (case handle K P e (app w) of
                None \<Rightarrow> None
              | Some (s', rs) \<Rightarrow> Some (commit (latency e) s' rs w)))"

fun run :: "constants \<Rightarrow> platform \<Rightarrow> event list \<Rightarrow> world \<Rightarrow> world option" where
  "run K P [] w = Some w"
| "run K P (e # es) w = (case exec K P e w of None \<Rightarrow> None | Some w' \<Rightarrow> run K P es w')"

text \<open>A sequence of calls of \<open>handlePrev\<close> and \<open>handleNext\<close>.\<close>

datatype nav = Prev | Next

fun navigate :: "constants \<Rightarrow> nav list \<Rightarrow> app_state \<Rightarrow> app_state" where
  "navigate K [] s = s"
| "navigate K (Prev # ns) s = navigate K ns (handlePrev s)"
| "navigate K (Next # ns) s = navigate K ns (handleNext K s)"

section \<open>Predicates of the statements\<close>

text \<open>
  The capital letters A to Z and the Greek capital letters; the lower-case form of each
  is 32 code units above it.
\<close>

definition is_capital :: "nat \<Rightarrow> bool" where
  "is_capital c = ((65 \<le> c \<and> c \<le> 90) \<or> (913 \<le> c \<and> c \<le> 937 \<and> c \<noteq> 930))"


text \<open>
  The carousel index reached from 0 by steps of three: not negative, a multiple of 3,
  and either 0 or at least two cards before the end of the list.
\<close>

definition nav_inv :: "int \<Rightarrow> int \<Rightarrow> bool" where
  "nav_inv n i = (0 \<le> i \<and> i mod 3 = 0 \<and> (i = 0 \<or> i + 2 \<le> n))"

fun request_cb :: "request \<Rightarrow> callback" where
  "request_cb (Timeout d c) = c"
| "request_cb (Interval d c) = c"
| "request_cb (Frame c) = c"
| "request_cb (Await c) = c"

text \<open>
  A property \<open>S\<close> of the state cells together with a property \<open>C\<close> of every pending
  callback.
\<close>

definition world_inv :: "(app_state \<Rightarrow> bool) \<Rightarrow> (callback \<Rightarrow> bool) \<Rightarrow> world \<Rightarrow> bool" where
  "world_inv S C w = (S (app w) \<and> list_all (\<lambda>x. C (cb x)) (timers w))"



text \<open>
  The list \<open>cs\<close> has no duplicates and does not contain the active card id \<open>a\<close>.
\<close>

definition fresh_active :: "int option \<Rightarrow> int list \<Rightarrow> bool" where
  "fresh_active a cs = (distinct cs \<and> (case a of None \<Rightarrow> True | Some n \<Rightarrow> n \<notin> set cs))"

definition solved_ok :: "app_state \<Rightarrow> bool" where
  "solved_ok s = fresh_active (activeCardId s) (solvedCards (user s))"

fun solved_cb :: "callback \<Rightarrow> bool" where
  "solved_cb (CloseShrink b a cs) = fresh_active a cs"
| "solved_cb (CloseReset b a cs) = fresh_active a cs"
| "solved_cb (CardHashed h c r) = solved_ok r"
| "solved_cb c = True"

section \<open>Example configurations\<close>

text \<open>
  What \<open>String.prototype.toLowerCase\<close> does on the letters A to Z and on the Greek
  letters: a capital letter becomes its lower-case form, except that capital sigma
  (931) becomes final sigma (962) when a letter precedes it and no letter follows it,
  and sigma (963) otherwise. The flag says whether the code unit before is a letter.
\<close>

definition is_letter :: "nat \<Rightarrow> bool" where
  "is_letter c =
     (is_capital c \<or> (97 \<le> c \<and> c \<le> 122) \<or> (945 \<le> c \<and> c \<le> 969))"

fun lower_after :: "bool \<Rightarrow> jsstring \<Rightarrow> jsstring" where
  "lower_after b [] = []"
| "lower_after b (c # cs) =
     (if c = 931
      then (if b \<and> (case cs of [] \<Rightarrow> True | d # ds \<Rightarrow> \<not> is_letter d) then 962 else 963)
      else if is_capital c then c + 32 else c)
     # lower_after (is_letter c) cs"

text \<open>
  A stand-in platform for running examples: the letters A to Z and the Greek letters are
  lower-cased as above, a code unit is encoded as its low byte and the digest is the
  identity, so the digest of \<open>a\<close> is \<open>61\<close> in hexadecimal.
\<close>

definition toy_platform :: platform where
  "toy_platform =
     \<lparr>toLowerCase = lower_after False, encode = map of_nat, sha256 = (\<lambda>bs. bs)\<rparr>"

text \<open>
  One card whose answer is the digest of \<open>alpha sigma\<close> (945, 963) on the stand-in
  platform.
\<close>

definition sigma_card :: constants where
  "sigma_card =
     \<lparr>TEST_MODE = False, TARGET_DATE = Some 1000,
      CARDS_CONFIG = [\<lparr>card_id = 1, answer = [98, 49, 99, 51]\<rparr>],
      FINAL_ANSWER = [54, 50]\<rparr>"

text \<open>
  Configurations with one, two and five cards. The answer of every card is \<open>a\<close>, the
  final answer is \<open>b\<close>, the target time is 1000.
\<close>

definition cards_with_ids :: "int list \<Rightarrow> constants" where
  "cards_with_ids ids =
     \<lparr>TEST_MODE = False, TARGET_DATE = Some 1000,
      CARDS_CONFIG = map (\<lambda>i. \<lparr>card_id = i, answer = [54, 49]\<rparr>) ids,
      FINAL_ANSWER = [54, 50]\<rparr>"

definition one_card :: constants where
  "one_card = cards_with_ids [1]"

definition two_cards :: constants where
  "two_cards = cards_with_ids [1, 2]"

definition five_cards :: constants where
  "five_cards = cards_with_ids [1, 2, 3, 4, 5]"

text \<open>
  Worlds used in examples. \<open>name_entered\<close>: mounted at time 2000 with one card, after
  the clicks on the home and start screens and typing \<open>" Al "\<close> into the name field.
\<close>

definition name_entered :: world where
  "name_entered =
     \<lparr>now = 2000,
      app = (initial_state one_card 2000)\<lparr>step := Some NAME, inputName := [32, 65, 108, 32]\<rparr>,
      timers = [], next_tid = 0, countdown_cleanup = None\<rparr>"

text \<open>The events that lead from mounting to the carousel, the name being \<open>Al\<close>.\<close>

definition to_carousel :: "event list" where
  "to_carousel = [ClickHome, ClickStart, TypeName [32, 65, 108, 32], ClickNameSubmit, Fire]"

text \<open>Opening the card at position \<open>k\<close> and waiting until the lock is released.\<close>

definition open_card :: "nat \<Rightarrow> event list" where
  "open_card k = [ClickCard k, Fire, Fire, Fire]"

text \<open>
  Typing \<open>v\<close> as the answer of the open card and confirming, the digest being
  immediate; the last event runs the continuation of the \<open>await\<close>.
\<close>

definition answer_card :: "jsstring \<Rightarrow> event list" where
  "answer_card v = [TypeCardAnswer v, ClickConfirm 0, Fire]"

text \<open>
  With one card: reaching the carousel, opening the card, answering it correctly and
  letting the close sequence and the pause of 800 ms run, which ends in \<open>LIGHT_1\<close>.
\<close>

definition solve_only_card :: "event list" where
  "solve_only_card = to_carousel @ open_card 0 @ answer_card [65] @ [Fire, Fire, Fire]"

text \<open>
  With one card: the confirm button is clicked twice at the same instant with the
  correct answer; the first digest takes 1 ms and the second 3000 ms.
\<close>

definition confirm_twice :: "event list" where
  "confirm_twice = to_carousel @ open_card 0 @ [TypeCardAnswer [65], ClickConfirm 1, ClickConfirm 3000]"

text \<open>What the examples look at: the clock, the step and the pending tasks.\<close>

definition pending :: "world \<Rightarrow> (int \<times> callback) list" where
  "pending w = map (\<lambda>x. (due x, cb x)) (timers w)"

definition glance :: "world \<Rightarrow> int \<times> AppStep option \<times> (int \<times> callback) list" where
  "glance w = (now w, step (app w), pending w)"

text \<open>The world that \<open>solve_only_card\<close> leads to when mounted at time 2000.\<close>

definition light1_world :: world where
  "light1_world =
     \<lparr>now = 6200,
      app = (initial_state one_card 2000)
              \<lparr>step := Some LIGHT_1,
               user := \<lparr>name = [65, 108], solvedCards = [1], finalSolved = False\<rparr>,
               inputName := [32, 65, 108, 32], inputCardAnswer := [65]\<rparr>,
      timers = [\<lparr>tid = 8, due = 8700, every = None, cb = SetStep (Some LIGHT_2)\<rparr>],
      next_tid = 9, countdown_cleanup = None\<rparr>"

text \<open>
  With one card: the confirm button is clicked twice at the same instant with the
  correct answer; the first digest takes 1 ms and the second 2 ms.
\<close>

definition confirm_twice_fast :: "event list" where
  "confirm_twice_fast =
     to_carousel @ open_card 0 @ [TypeCardAnswer [65], ClickConfirm 1, ClickConfirm 2]"

section \<open>Evaluation\<close>

lemmas model_defs =
  mount_def exec_def fire_def commit_def light_effect_def countdown_effect_def
  initial_state_def enqueue_def light_timers_def run_cleanup_def clearInterval_def
  handleNameSubmit_def handleError_def handlePrev_def handleNext_def openCard_def
  closeCard_def submitCardAnswer_def submitFinalAnswer_def truthy_def js_slice_def
  visibleCards_def shouldRenderGameLayer_def showCarouselUI_def isGameLayerInteractive_def
  prev_disabled_def next_disabled_def clickCard_def visibleCount_def hashedInput_def
  hashString_def hex_byte_def hex_digit_def trim_def
  isWhiteSpace_def WhiteSpace_def AppStep_LIGHT_4_def AppStep_member_def AppStep_enum_def

lemmas example_defs =
  toy_platform_def cards_with_ids_def one_card_def two_cards_def five_cards_def
  name_entered_def to_carousel_def open_card_def answer_card_def
  solve_only_card_def confirm_twice_def pending_def glance_def light1_world_def
  confirm_twice_fast_def sigma_card_def is_capital_def is_letter_def

lemma app_arm [simp]: "app (arm lat a w) = app w"
  by (cases a) (simp_all add: enqueue_def)

lemma now_arm [simp]: "now (arm lat a w) = now w"
  by (cases a) (simp_all add: enqueue_def)

lemma app_fold_arm [simp]: "app (fold (arm lat) rs w) = app w"
  by (induction rs arbitrary: w) simp_all

lemma now_fold_arm [simp]: "now (fold (arm lat) rs w) = now w"
  by (induction rs arbitrary: w) simp_all

lemma app_commit [simp]: "app (commit lat s' rs w) = s'"
  by (simp add: commit_def Let_def light_effect_def countdown_effect_def run_cleanup_def
      clearInterval_def enqueue_def split: option.splits)

lemma now_commit [simp]: "now (commit lat s' rs w) = now w"
  by (simp add: commit_def Let_def light_effect_def countdown_effect_def run_cleanup_def
      clearInterval_def enqueue_def split: option.splits)

lemma commit_nothing [simp]: "commit lat (app w) [] w = w"
  by (simp add: commit_def)

lemma LIGHT_4_undefined: "AppStep_LIGHT_4 = None"
  by (simp add: AppStep_LIGHT_4_def AppStep_member_def AppStep_enum_def)


section \<open>The carousel\<close>

lemma nav_inv_prev: "nav_inv n (carouselIndex s) \<Longrightarrow> nav_inv n (carouselIndex (handlePrev s))"
  unfolding nav_inv_def handlePrev_def by (auto; presburger)

lemma nav_inv_next:
  "nav_inv (int (length (CARDS_CONFIG K))) (carouselIndex s)
   \<Longrightarrow> nav_inv (int (length (CARDS_CONFIG K))) (carouselIndex (handleNext K s))"
  unfolding nav_inv_def handleNext_def visibleCount_def by (auto; presburger)

lemma nav_inv_navigate:
  "nav_inv (int (length (CARDS_CONFIG K))) (carouselIndex s)
   \<Longrightarrow> nav_inv (int (length (CARDS_CONFIG K))) (carouselIndex (navigate K ns s))"
proof (induction ns arbitrary: s)
  case Nil
  then show ?case by simp
next
  case (Cons a ns)
  then show ?case by (cases a) (simp_all add: nav_inv_prev nav_inv_next)
qed

lemma handlePrev_noop: "handlePrev s = s \<longleftrightarrow> \<not> carouselIndex s > 0"
proof
  assume h: "handlePrev s = s"
  show "\<not> carouselIndex s > 0"
  proof
    assume "carouselIndex s > 0"
    then have "carouselIndex (handlePrev s) = carouselIndex s - 3" by (simp add: handlePrev_def)
    with h show False by simp
  qed
next
  assume "\<not> carouselIndex s > 0" then show "handlePrev s = s" by (simp add: handlePrev_def)
qed

lemma handleNext_noop: "handleNext K s = s \<longleftrightarrow> next_disabled K s"
proof
  assume h: "handleNext K s = s"
  show "next_disabled K s"
  proof (rule ccontr)
    assume "\<not> next_disabled K s"
    then have "carouselIndex (handleNext K s) = carouselIndex s + 3"
      by (simp add: handleNext_def next_disabled_def)
    with h show False by simp
  qed
next
  assume "next_disabled K s" then show "handleNext K s = s"
    by (simp add: handleNext_def next_disabled_def)
qed

text \<open>
  C4, as the code has it. Starting from \<open>carouselIndex = 0\<close>, after any sequence of
  \<open>handlePrev\<close> and \<open>handleNext\<close> calls the index is at least 0 and at most
  \<open>max 0 (CARDS_CONFIG.length - 2)\<close>: a page step is 3 and four cards are shown, so the
  last window may hold fewer than four cards. The right arrow is disabled exactly when
  \<open>carouselIndex + visibleCount \<ge> CARDS_CONFIG.length\<close>, and \<open>handleNext\<close> does
  nothing exactly then; the left arrow is disabled exactly when \<open>carouselIndex = 0\<close>, and
  \<open>handlePrev\<close> does nothing exactly then.
\<close>

theorem carousel_window:
  assumes "carouselIndex s = 0"
  shows "0 \<le> carouselIndex (navigate K ns s)
       \<and> carouselIndex (navigate K ns s) \<le> max 0 (int (length (CARDS_CONFIG K)) - 2)
       \<and> (next_disabled K (navigate K ns s)
            \<longleftrightarrow> carouselIndex (navigate K ns s) + visibleCount \<ge> int (length (CARDS_CONFIG K)))
       \<and> (handleNext K (navigate K ns s) = navigate K ns s \<longleftrightarrow> next_disabled K (navigate K ns s))
       \<and> (prev_disabled (navigate K ns s) \<longleftrightarrow> carouselIndex (navigate K ns s) = 0)
       \<and> (handlePrev (navigate K ns s) = navigate K ns s \<longleftrightarrow> prev_disabled (navigate K ns s))"
proof -
  from assms have "nav_inv (int (length (CARDS_CONFIG K))) (carouselIndex s)"
    by (simp add: nav_inv_def)
  then have inv: "nav_inv (int (length (CARDS_CONFIG K))) (carouselIndex (navigate K ns s))"
    by (rule nav_inv_navigate)
  then have b: "0 \<le> carouselIndex (navigate K ns s)"
    and u: "carouselIndex (navigate K ns s) \<le> max 0 (int (length (CARDS_CONFIG K)) - 2)"
    by (auto simp: nav_inv_def)
  from b have p: "handlePrev (navigate K ns s) = navigate K ns s \<longleftrightarrow> prev_disabled (navigate K ns s)"
    unfolding handlePrev_noop prev_disabled_def by auto
  show ?thesis using b u p by (simp add: handleNext_noop) (simp add: next_disabled_def prev_disabled_def)
qed

text \<open>
  With five cards, one \<open>handleNext\<close> from 0 gives index 3, which is above
  \<open>max 0 (5 - visibleCount) = 1\<close>: the bound of C4 as stated does not hold.
\<close>

theorem carousel_window_counterexample:
  "\<not> carouselIndex (navigate five_cards [Next] (initial_state five_cards 0))
       \<le> max 0 (int (length (CARDS_CONFIG five_cards)) - visibleCount)"
  by (simp add: example_defs model_defs)

text \<open>
  With five cards, next, next, prev, next from 0: the index is 3, the right arrow is
  disabled and the left one is not.
\<close>

theorem carousel_window_witness:
  "carouselIndex (initial_state five_cards 0) = 0
   \<and> carouselIndex (navigate five_cards [Next, Next, Prev, Next] (initial_state five_cards 0)) = 3
   \<and> next_disabled five_cards (navigate five_cards [Next, Next, Prev, Next] (initial_state five_cards 0))
   \<and> \<not> prev_disabled (navigate five_cards [Next, Next, Prev, Next] (initial_state five_cards 0))"
  using carousel_window [of "initial_state five_cards 0" five_cards "[Next, Next, Prev, Next]"]
  by (simp add: example_defs model_defs)

section \<open>Submitting the name\<close>

lemma fire_NameFade:
  assumes "next_timer (timers w) = Some x" "cb x = NameFade" "now w \<le> due x"
  shows "\<exists>w'. fire K w = Some w' \<and> now w' = due x \<and> step (app w') = Some CAROUSEL
            \<and> \<not> isTransitioning (app w')"
  using assms by (simp add: fire_def Let_def max_def)

text \<open>
  C9. On the name screen, a click on the submit button with an empty or whitespace-only
  name changes nothing: the state, the clock and the pending tasks stay as they are.
  With any other name the trimmed name is stored in \<open>user.name\<close> and
  \<open>isTransitioning\<close> set in the same update, the step is still \<open>NAME\<close>, and exactly
  one timeout is armed, due 1000 ms later. Whenever that timeout is the next task to
  run, it runs at its due time and sets the step to \<open>CAROUSEL\<close>.
\<close>

theorem name_submit:
  assumes "step (app w) = Some NAME"
  shows "(trim (inputName (app w)) = [] \<longrightarrow> exec K P ClickNameSubmit w = Some w)
       \<and> (trim (inputName (app w)) \<noteq> [] \<longrightarrow>
            exec K P ClickNameSubmit w =
              Some (w\<lparr>app := (app w)\<lparr>user := (user (app w))\<lparr>name := trim (inputName (app w))\<rparr>,
                                      isTransitioning := True\<rparr>,
                      timers := timers w @ [\<lparr>tid = next_tid w, due = now w + 1000,
                                              every = None, cb = NameFade\<rparr>],
                      next_tid := Suc (next_tid w)\<rparr>))
       \<and> (\<forall>w2 x. next_timer (timers w2) = Some x \<and> cb x = NameFade \<and> now w2 \<le> due x \<longrightarrow>
            (\<exists>w3. fire K w2 = Some w3 \<and> now w3 = due x \<and> step (app w3) = Some CAROUSEL
                  \<and> \<not> isTransitioning (app w3)))"
proof (intro conjI impI allI)
  assume "trim (inputName (app w)) = []"
  with assms show "exec K P ClickNameSubmit w = Some w"
    by (simp add: exec_def handleNameSubmit_def)
next
  assume "trim (inputName (app w)) \<noteq> []"
  with assms show "exec K P ClickNameSubmit w =
              Some (w\<lparr>app := (app w)\<lparr>user := (user (app w))\<lparr>name := trim (inputName (app w))\<rparr>,
                                      isTransitioning := True\<rparr>,
                      timers := timers w @ [\<lparr>tid = next_tid w, due = now w + 1000,
                                              every = None, cb = NameFade\<rparr>],
                      next_tid := Suc (next_tid w)\<rparr>)"
    by (simp add: exec_def handleNameSubmit_def commit_def enqueue_def)
next
  fix w2 :: world and x
  assume "next_timer (timers w2) = Some x \<and> cb x = NameFade \<and> now w2 \<le> due x"
  then show "\<exists>w3. fire K w2 = Some w3 \<and> now w3 = due x \<and> step (app w3) = Some CAROUSEL
                  \<and> \<not> isTransitioning (app w3)"
    using fire_NameFade by blast
qed

text \<open>
  The name screen reached at time 2000 with \<open>" Al "\<close> typed: the submit stores
  \<open>"Al"\<close> and arms the timeout for 3000, and at 3000 the step is \<open>CAROUSEL\<close>. With
  a space and a tab typed instead, the click changes nothing.
\<close>

theorem name_submit_witness:
  "run one_card toy_platform [ClickHome, ClickStart, TypeName [32, 65, 108, 32]] (mount one_card 2000)
     = Some name_entered
   \<and> step (app name_entered) = Some NAME
   \<and> map_option (\<lambda>w. (step (app w), name (user (app w)), isTransitioning (app w),
                       map (\<lambda>x. (due x, cb x)) (timers w)))
        (exec one_card toy_platform ClickNameSubmit name_entered)
       = Some (Some NAME, [65, 108], True, [(3000, NameFade)])
   \<and> map_option (\<lambda>w. (now w, step (app w), name (user (app w))))
        (run one_card toy_platform [ClickNameSubmit, Fire] name_entered)
       = Some (3000, Some CAROUSEL, [65, 108])
   \<and> exec one_card toy_platform ClickNameSubmit
        (name_entered\<lparr>app := (app name_entered)\<lparr>inputName := [32, 9]\<rparr>\<rparr>)
       = Some (name_entered\<lparr>app := (app name_entered)\<lparr>inputName := [32, 9]\<rparr>\<rparr>)"
  using name_submit [of name_entered one_card toy_platform]
    name_submit [of "name_entered\<lparr>app := (app name_entered)\<lparr>inputName := [32, 9]\<rparr>\<rparr>"
                    one_card toy_platform]
  by (simp add: example_defs model_defs)

section \<open>Opening and closing a card\<close>

text \<open>
  C10. \<open>closeCard(true)\<close>, when it is not dropped by the lock, arms the shrink timeout
  with the active card id of its render, which arms the reset timeout with the same id.
  At the reset, for the id 0 the state is only unlocked and the active card cleared:
  \<open>user.solvedCards\<close> is not touched and no timeout towards \<open>LIGHT_1\<close> is armed. For
  every other id \<open>n\<close> the id is appended to the captured \<open>solvedCards\<close>, and the
  timeout towards \<open>LIGHT_1\<close> is armed when the new length is the number of cards.
\<close>

theorem closeCard_commit_guard:
  "(\<not> isAnimating r \<longrightarrow>
      snd (closeCard r True s) = [Timeout 600 (CloseShrink True (activeCardId r) (solvedCards (user r)))])
   \<and> snd (run_callback K t (CloseShrink b a cs) s) = ([Timeout 600 (CloseReset b a cs)], False)
   \<and> run_callback K t (CloseReset True (Some 0) cs) s
        = (s\<lparr>activeCardId := None, isAnimating := False\<rparr>, [], False)
   \<and> (n \<noteq> 0 \<longrightarrow>
        run_callback K t (CloseReset True (Some n) cs) s
          = (s\<lparr>activeCardId := None, isAnimating := False,
                user := (user s)\<lparr>solvedCards := cs @ [n]\<rparr>\<rparr>,
             (if length cs + 1 = length (CARDS_CONFIG K)
              then [Timeout 800 (SetStep (Some LIGHT_1))] else []),
             False))"
  by (simp add: closeCard_def truthy_def)

text \<open>
  With the cards 0 and 7: answering card 0 correctly closes it and leaves
  \<open>solvedCards\<close> empty; answering card 7 correctly gives \<open>solvedCards = [7]\<close>.
\<close>

theorem closeCard_commit_guard_witness:
  "\<not> isAnimating (initial_state one_card 0)
   \<and> (7::int) \<noteq> 0
   \<and> snd (closeCard (initial_state one_card 0) True (initial_state one_card 0))
       = [Timeout 600 (CloseShrink True None [])]
   \<and> solvedCards (user (fst (run_callback one_card 0 (CloseReset True (Some 7) []) (initial_state one_card 0))))
       = [7]
   \<and> map_option (\<lambda>w. (solvedCards (user (app w)), activeCardId (app w), timers w))
        (run (cards_with_ids [0, 7]) toy_platform
           (to_carousel @ open_card 0 @ answer_card [65] @ [Fire, Fire]) (mount (cards_with_ids [0, 7]) 2000))
       = Some ([], None, [])
   \<and> map_option (\<lambda>w. (solvedCards (user (app w)), activeCardId (app w), timers w))
        (run (cards_with_ids [0, 7]) toy_platform
           (to_carousel @ open_card 1 @ answer_card [65] @ [Fire, Fire]) (mount (cards_with_ids [0, 7]) 2000))
       = Some ([7], None, [])"
  using closeCard_commit_guard [where r = "initial_state one_card 0" and s = "initial_state one_card 0"
      and K = one_card and t = 0 and b = True and a = None and cs = "[]" and n = 7]
  by (simp add: example_defs model_defs)

text \<open>
  C5, as the code has it. \<open>openCard\<close> is dropped while \<open>isAnimating\<close> holds, and it
  tests nothing else. The click handler of a card drops the click when that card is the
  active one or is in \<open>solvedCards\<close>; then the whole world is unchanged. After an
  \<open>openCard\<close> that was not dropped, the lock is set and the card is the active one, so
  a second \<open>openCard\<close> before the lock clears is dropped. Whether some other card is
  active is not tested: a click on a card that is neither the active one nor solved
  calls \<open>openCard\<close>, which makes it the active card when the lock is clear.
\<close>

theorem open_card_guards:
  "(isAnimating s \<longrightarrow> openCard i s = (s, []))
   \<and> (isAnimating s \<or> activeCardId s = Some (card_id c) \<or> card_id c \<in> set (solvedCards (user s))
        \<longrightarrow> clickCard c s = (s, []))
   \<and> (\<not> isAnimating s \<longrightarrow>
        activeCardId (fst (openCard i s)) = Some i
        \<and> isAnimating (fst (openCard i s))
        \<and> openCard j (fst (openCard i s)) = (fst (openCard i s), []))
   \<and> (isGameLayerInteractive s \<and> activeCardId s \<noteq> Some (card_id c)
        \<and> card_id c \<notin> set (solvedCards (user s))
        \<longrightarrow> clickCard c s = openCard (card_id c) s)
   \<and> (shouldRenderGameLayer (app w) \<and> showCarouselUI (app w) \<and> k < length (visibleCards K (app w))
        \<and> (isAnimating (app w)
             \<or> activeCardId (app w) = Some (card_id (visibleCards K (app w) ! k))
             \<or> card_id (visibleCards K (app w) ! k) \<in> set (solvedCards (user (app w))))
        \<longrightarrow> exec K P (ClickCard k) w = Some w)"
  by (auto simp: openCard_def clickCard_def exec_def Let_def)

text \<open>
  With two cards, card 1 is opened and the lock has cleared. A click on card 2 then
  opens it: the active card changes from 1 to 2, so an open call made while a card is
  active does change the state.
\<close>

theorem open_card_guards_counterexample:
  "map_option (\<lambda>w. (activeCardId (app w), isAnimating (app w)))
     (run two_cards toy_platform (to_carousel @ open_card 0) (mount two_cards 2000))
     = Some (Some 1, False)
   \<and> map_option (\<lambda>w. (activeCardId (app w), isAnimating (app w)))
     (run two_cards toy_platform (to_carousel @ open_card 0 @ [ClickCard 1]) (mount two_cards 2000))
     = Some (Some 2, True)"
  by (simp add: example_defs model_defs)

text \<open>
  Two clicks in a row, on card 1 and then on card 2, before the lock clears: the second
  is dropped and card 1 stays the active card. A click on the open card is dropped.
\<close>

theorem open_card_guards_witness:
  "map_option (\<lambda>w. (activeCardId (app w), isAnimating (app w)))
     (run two_cards toy_platform (to_carousel @ [ClickCard 0]) (mount two_cards 2000))
     = Some (Some 1, True)
   \<and> map_option (\<lambda>w. (activeCardId (app w), isAnimating (app w)))
     (run two_cards toy_platform (to_carousel @ [ClickCard 0, ClickCard 1]) (mount two_cards 2000))
     = Some (Some 1, True)
   \<and> \<not> isAnimating (initial_state two_cards 0)
   \<and> openCard 2 (fst (openCard 1 (initial_state two_cards 0)))
       = (fst (openCard 1 (initial_state two_cards 0)), [])
   \<and> clickCard \<lparr>card_id = 1, answer = []\<rparr>
        ((initial_state two_cards 0)\<lparr>user := \<lparr>name = [], solvedCards = [1], finalSolved = False\<rparr>\<rparr>)
       = ((initial_state two_cards 0)\<lparr>user := \<lparr>name = [], solvedCards = [1], finalSolved = False\<rparr>\<rparr>, [])"
  using open_card_guards [where s = "initial_state two_cards 0" and i = 1
      and c = "\<lparr>card_id = 1, answer = []\<rparr>" and j = 2 and w = "mount two_cards 0" and k = 0
      and K = two_cards and P = toy_platform]
    open_card_guards [where s = "(initial_state two_cards 0)\<lparr>user := \<lparr>name = [], solvedCards = [1], finalSolved = False\<rparr>\<rparr>"
      and i = 1 and c = "\<lparr>card_id = 1, answer = []\<rparr>" and j = 2 and w = "mount two_cards 0"
      and k = 0 and K = two_cards and P = toy_platform]
  by (simp add: example_defs model_defs)

section \<open>The answer check\<close>









section \<open>Invariants of the event loop\<close>

lemma cb_arm:
  "list_all (\<lambda>x. C (cb x)) (timers (arm lat q w))
   \<longleftrightarrow> list_all (\<lambda>x. C (cb x)) (timers w) \<and> C (request_cb q)"
  by (cases q) (auto simp: enqueue_def)

lemma cb_fold_arm:
  "list_all (\<lambda>x. C (cb x)) (timers (fold (arm lat) rs w))
   \<longleftrightarrow> list_all (\<lambda>x. C (cb x)) (timers w) \<and> list_all (\<lambda>q. C (request_cb q)) rs"
  by (induction rs arbitrary: w) (auto simp: cb_arm)

lemma cb_clearInterval:
  "list_all Q (timers w) \<Longrightarrow> list_all Q (timers (clearInterval i w))"
  by (simp add: clearInterval_def list_all_iff)

lemma cb_run_cleanup:
  "list_all Q (timers w) \<Longrightarrow> list_all Q (timers (run_cleanup w))"
  by (simp add: run_cleanup_def cb_clearInterval split: option.splits)

lemma cb_countdown_effect:
  "C CountdownTick \<Longrightarrow> list_all (\<lambda>x. C (cb x)) (timers w)
   \<Longrightarrow> list_all (\<lambda>x. C (cb x)) (timers (countdown_effect w))"
  by (simp add: countdown_effect_def enqueue_def)

lemma cb_light_effect:
  "list_all (\<lambda>q. C (request_cb q)) (light_timers (step (app w)))
   \<Longrightarrow> list_all (\<lambda>x. C (cb x)) (timers w)
   \<Longrightarrow> list_all (\<lambda>x. C (cb x)) (timers (light_effect w))"
  by (simp add: light_effect_def cb_fold_arm)

lemma world_inv_commit:
  assumes "list_all (\<lambda>x. C (cb x)) (timers w)" and "S s'"
    and "list_all (\<lambda>q. C (request_cb q)) rs"
    and "C CountdownTick"
    and "\<And>st. list_all (\<lambda>q. C (request_cb q)) (light_timers st)"
  shows "world_inv S C (commit lat s' rs w)"
proof -
  let ?w1 = "fold (arm lat) rs (w\<lparr>app := s'\<rparr>)"
  let ?w2 = "if isGameLive s' \<noteq> isGameLive (app w) then countdown_effect (run_cleanup ?w1) else ?w1"
  have t1: "list_all (\<lambda>x. C (cb x)) (timers ?w1)"
    using assms(1,3) by (simp add: cb_fold_arm)
  then have t2: "list_all (\<lambda>x. C (cb x)) (timers ?w2)"
    using assms(4) by (simp add: cb_countdown_effect cb_run_cleanup)
  then have "list_all (\<lambda>x. C (cb x)) (timers (light_effect ?w2))"
    using assms(5) by (intro cb_light_effect)
  with t2 have "list_all (\<lambda>x. C (cb x)) (timers (commit lat s' rs w))"
    by (simp add: commit_def Let_def)
  with assms(2) show ?thesis by (simp add: world_inv_def)
qed

lemma next_timer_mem: "next_timer xs = Some x \<Longrightarrow> x \<in> set xs"
  by (induction xs arbitrary: x) (auto split: option.splits if_splits)

lemma world_inv_fire:
  assumes R: "\<And>t c s s' rs b. S s \<Longrightarrow> C c \<Longrightarrow> run_callback K t c s = (s', rs, b)
                \<Longrightarrow> S s' \<and> list_all (\<lambda>q. C (request_cb q)) rs"
    and T: "C CountdownTick"
    and L: "\<And>st. list_all (\<lambda>q. C (request_cb q)) (light_timers st)"
    and I: "world_inv S C w" and F: "fire K w = Some w'"
  shows "world_inv S C w'"
proof -
  from F obtain x where x: "next_timer (timers w) = Some x"
    by (auto simp: fire_def split: option.splits)
  define t where "t = max (now w) (due x)"
  define rest where "rest = (case every x of
       None \<Rightarrow> filter (\<lambda>y. tid y \<noteq> tid x) (timers w)
     | Some p \<Rightarrow> map (\<lambda>y. if tid y = tid x then y\<lparr>due := due y + p\<rparr> else y) (timers w))"
  define w1 where "w1 = w\<lparr>now := t, timers := rest\<rparr>"
  obtain s' rs b where r: "run_callback K t (cb x) (app w) = (s', rs, b)"
    by (cases "run_callback K t (cb x) (app w)") auto
  from I have all: "list_all (\<lambda>x. C (cb x)) (timers w)" and S: "S (app w)"
    by (simp_all add: world_inv_def)
  from x all have "C (cb x)" by (auto dest: next_timer_mem simp: list_all_iff)
  with S r have S': "S s'" and rs: "list_all (\<lambda>q. C (request_cb q)) rs"
    using R by blast+
  from all have "list_all (\<lambda>x. C (cb x)) rest"
    by (auto simp: rest_def list_all_iff split: option.splits)
  then have "list_all (\<lambda>x. C (cb x)) (timers (if b then clearInterval (tid x) w1 else w1))"
    by (simp add: w1_def cb_clearInterval)
  then have "world_inv S C (commit 0 s' rs (if b then clearInterval (tid x) w1 else w1))"
    using S' rs T L by (rule world_inv_commit)
  moreover from F x r have "w' = commit 0 s' rs (if b then clearInterval (tid x) w1 else w1)"
    by (auto simp: fire_def Let_def t_def rest_def w1_def)
  ultimately show ?thesis by simp
qed

lemma world_inv_exec:
  assumes H: "\<And>e s s' rs. S s \<Longrightarrow> handle K P e s = Some (s', rs)
                \<Longrightarrow> S s' \<and> list_all (\<lambda>q. C (request_cb q)) rs"
    and R: "\<And>t c s s' rs b. S s \<Longrightarrow> C c \<Longrightarrow> run_callback K t c s = (s', rs, b)
                \<Longrightarrow> S s' \<and> list_all (\<lambda>q. C (request_cb q)) rs"
    and T: "C CountdownTick"
    and L: "\<And>st. list_all (\<lambda>q. C (request_cb q)) (light_timers st)"
    and I: "world_inv S C w" and E: "exec K P e w = Some w'"
  shows "world_inv S C w'"
proof (cases "e = Fire")
  case True
  with E have "fire K w = Some w'" by (simp add: exec_def)
  with R T L I show ?thesis by (rule world_inv_fire)
next
  case nf: False
  show ?thesis
  proof (cases "\<exists>d. e = Elapse d")
    case True
    with E I show ?thesis
      by (auto simp: exec_def world_inv_def split: if_splits)
  next
    case False
    with nf E obtain s' rs where h: "handle K P e (app w) = Some (s', rs)"
      and w': "w' = commit (latency e) s' rs w"
      by (cases e) (auto simp: exec_def split: option.splits)
    from I have "S (app w)" and all: "list_all (\<lambda>x. C (cb x)) (timers w)"
      by (simp_all add: world_inv_def)
    with h have "S s'" and "list_all (\<lambda>q. C (request_cb q)) rs"
      using H by blast+
    with all show ?thesis unfolding w' using T L by (intro world_inv_commit)
  qed
qed

lemma world_inv_run:
  assumes H: "\<And>e s s' rs. S s \<Longrightarrow> handle K P e s = Some (s', rs)
                \<Longrightarrow> S s' \<and> list_all (\<lambda>q. C (request_cb q)) rs"
    and R: "\<And>t c s s' rs b. S s \<Longrightarrow> C c \<Longrightarrow> run_callback K t c s = (s', rs, b)
                \<Longrightarrow> S s' \<and> list_all (\<lambda>q. C (request_cb q)) rs"
    and T: "C CountdownTick"
    and L: "\<And>st. list_all (\<lambda>q. C (request_cb q)) (light_timers st)"
  shows "world_inv S C w \<Longrightarrow> run K P evs w = Some w' \<Longrightarrow> world_inv S C w'"
proof (induction evs arbitrary: w)
  case Nil
  then show ?case by simp
next
  case (Cons e evs)
  from Cons.prems(2) obtain w1 where e: "exec K P e w = Some w1" and r: "run K P evs w1 = Some w'"
    by (auto split: option.splits)
  from H R T L Cons.prems(1) e have "world_inv S C w1" by (rule world_inv_exec)
  then show ?case using r by (rule Cons.IH)
qed

lemma app_countdown_effect [simp]: "app (countdown_effect w) = app w"
  by (simp add: countdown_effect_def enqueue_def)

lemma world_inv_mount:
  assumes "S (initial_state K t)" and "C CountdownTick"
  shows "world_inv S C (mount K t)"
proof -
  let ?w0 = "\<lparr>now = t, app = initial_state K t, timers = [], next_tid = 0,
              countdown_cleanup = None\<rparr>"
  have st: "light_timers (step (initial_state K t)) = []"
    by (simp add: initial_state_def light_timers_def LIGHT_4_undefined)
  have "list_all (\<lambda>x. C (cb x)) (timers (countdown_effect ?w0))"
    using assms(2) by (intro cb_countdown_effect) simp_all
  then have "list_all (\<lambda>x. C (cb x)) (timers (mount K t))"
    unfolding mount_def by (intro cb_light_effect) (simp_all add: st)
  moreover have "app (mount K t) = initial_state K t"
    by (simp add: mount_def light_effect_def)
  ultimately show ?thesis using assms(1) by (simp add: world_inv_def)
qed

section \<open>The countdown\<close>

lemma countdown_initial:
  "isGameLive (initial_state K t)
   \<longleftrightarrow> TEST_MODE K \<or> (case TARGET_DATE K of None \<Rightarrow> False | Some target \<Rightarrow> target - t \<le> 0)"
  by (simp add: initial_state_def split: option.splits)

lemma countdown_tick:
  "isGameLive (fst (run_callback K t CountdownTick s))
   \<longleftrightarrow> isGameLive s \<or> (case TARGET_DATE K of None \<Rightarrow> False | Some target \<Rightarrow> target - t < 0)"
  by (simp add: Let_def split: option.splits)

lemma isGameLive_handle:
  "isGameLive s \<Longrightarrow> handle K P e s = Some (s', rs) \<Longrightarrow> isGameLive s'"
  by (cases e)
     (auto simp: handleNameSubmit_def handlePrev_def handleNext_def clickCard_def openCard_def
        closeCard_def submitCardAnswer_def submitFinalAnswer_def Let_def
        split: if_splits option.splits)

lemma isGameLive_callback:
  "isGameLive s \<Longrightarrow> run_callback K t c s = (s', rs, b) \<Longrightarrow> isGameLive s'"
  by (cases c)
     (auto simp: handleError_def closeCard_def truthy_def Let_def split: if_splits option.splits)

text \<open>Once \<open>isGameLive\<close> holds, it holds in every later world.\<close>

lemma isGameLive_latch:
  assumes "isGameLive (app w)" and "run K P evs w = Some w'"
  shows "isGameLive (app w')"
proof -
  from assms(1) have "world_inv isGameLive (\<lambda>c. True) w"
    by (simp add: world_inv_def list_all_iff)
  then have "world_inv isGameLive (\<lambda>c. True) w'"
    using assms(2)
    by (rule world_inv_run [where S = isGameLive and C = "\<lambda>c. True", rotated 4])
       (auto dest: isGameLive_handle isGameLive_callback simp: list_all_iff)
  then show ?thesis by (simp add: world_inv_def)
qed

text \<open>
  C8 at the instant the target time is reached (target 1000, test mode off). The
  initial evaluation at time 1000 gives \<open>isGameLive = True\<close>, and at 999 it gives
  \<open>False\<close>. A component mounted at time 0 ticks at 1000: the remaining time is 0,
  the tick tests \<open>diff < 0\<close>, so \<open>isGameLive\<close> stays \<open>False\<close> and the text shows
  zero days, hours, minutes and seconds; only the tick at 2000 sets \<open>isGameLive\<close>.
\<close>

theorem countdown_tick_at_target:
  "isGameLive (initial_state one_card 1000)
   \<and> \<not> isGameLive (initial_state one_card 999)
   \<and> map_option (\<lambda>w. (now w, isGameLive (app w), timeLeft (app w), pending w))
        (run one_card toy_platform [Fire] (mount one_card 0))
       = Some (1000, False, TL_dhms 0 0 0 0, [(2000, CountdownTick)])
   \<and> map_option (\<lambda>w. (now w, isGameLive (app w), timeLeft (app w), pending w))
        (run one_card toy_platform [Fire, Fire] (mount one_card 0))
       = Some (2000, True, TL_zero, [])"
  by (simp add: example_defs model_defs)

section \<open>The error pulse\<close>

text \<open>
  When the continuation of a submission runs and the hashed input is not the expected
  digest, \<open>shakeError\<close> is set and one timeout is armed, due 500 ms later; the tasks
  that were pending stay pending, an earlier timeout of the pulse among them. Whenever a
  timeout of the pulse runs, it clears \<open>shakeError\<close>.
\<close>

lemma fire_rejection:
  assumes "next_timer (timers w) = Some x" and "every x = None"
  shows "(\<forall>h c r. cb x = CardHashed h c r \<and> h \<noteq> answer c \<longrightarrow>
            fire K w = Some (w\<lparr>now := max (now w) (due x),
                               app := (app w)\<lparr>shakeError := True\<rparr>,
                               timers := filter (\<lambda>y. tid y \<noteq> tid x) (timers w)
                                 @ [\<lparr>tid = next_tid w, due = max (now w) (due x) + 500,
                                      every = None, cb = ShakeOff\<rparr>],
                               next_tid := Suc (next_tid w)\<rparr>))
       \<and> (\<forall>h. cb x = FinalHashed h \<and> h \<noteq> FINAL_ANSWER K \<longrightarrow>
            fire K w = Some (w\<lparr>now := max (now w) (due x),
                               app := (app w)\<lparr>shakeError := True\<rparr>,
                               timers := filter (\<lambda>y. tid y \<noteq> tid x) (timers w)
                                 @ [\<lparr>tid = next_tid w, due = max (now w) (due x) + 500,
                                      every = None, cb = ShakeOff\<rparr>],
                               next_tid := Suc (next_tid w)\<rparr>))
       \<and> (cb x = ShakeOff \<longrightarrow>
            fire K w = Some (w\<lparr>now := max (now w) (due x),
                               app := (app w)\<lparr>shakeError := False\<rparr>,
                               timers := filter (\<lambda>y. tid y \<noteq> tid x) (timers w)\<rparr>))"
  using assms
  by (auto simp: fire_def Let_def handleError_def commit_def enqueue_def)

text \<open>
  C6 with two rejections 300 ms apart. The card is open and unlocked at 4200; a wrong
  answer is rejected at 4200 and again at 4500. After the second rejection the pulse is
  on and two timeouts are pending, for 4700 and 5000. The first one runs at 4700 and
  switches the pulse off, 200 ms after the latest rejection: the pulse does not stay
  active until 5000.
\<close>

theorem error_pulse_not_restarted:
  "map_option (\<lambda>w. (now w, shakeError (app w), pending w))
     (run one_card toy_platform
        (to_carousel @ open_card 0 @ [TypeCardAnswer [120], ClickConfirm 0, Fire, Elapse 300,
                                       ClickConfirm 0, Fire])
        (mount one_card 2000))
     = Some (4500, True, [(4700, ShakeOff), (5000, ShakeOff)])
   \<and> map_option (\<lambda>w. (now w, shakeError (app w), pending w))
     (run one_card toy_platform
        (to_carousel @ open_card 0 @ [TypeCardAnswer [120], ClickConfirm 0, Fire, Elapse 300,
                                       ClickConfirm 0, Fire, Fire])
        (mount one_card 2000))
     = Some (4700, False, [(5000, ShakeOff)])"
  by (simp add: example_defs model_defs)

section \<open>The light steps\<close>

lemma light_timers_values:
  "light_timers (Some LIGHT_1) = [Timeout 2500 (SetStep (Some LIGHT_2))]"
  "light_timers (Some LIGHT_2) = [Timeout 1200 (SetStep (Some LIGHT_3))]"
  "light_timers AppStep_LIGHT_4 = [Timeout 1200 (SetStep (Some END))]"
  by (simp_all add: light_timers_def LIGHT_4_undefined)

text \<open>A pending \<open>setStep\<close> sets the step when it runs, whatever the step is then.\<close>

lemma fire_SetStep:
  assumes "next_timer (timers w) = Some x" and "cb x = SetStep v"
  shows "\<exists>w'. fire K w = Some w' \<and> step (app w') = v \<and> now w' = max (now w) (due x)"
  using assms by (simp add: fire_def Let_def)

lemma timers_arm: "set (timers w) \<subseteq> set (timers (arm lat q w))"
  by (cases q) (auto simp: enqueue_def)

lemma timers_fold_arm: "set (timers w) \<subseteq> set (timers (fold (arm lat) rs w))"
proof (induction rs arbitrary: w)
  case Nil
  then show ?case by simp
next
  case (Cons q rs)
  have "set (timers w) \<subseteq> set (timers (arm lat q w))" by (rule timers_arm)
  also have "\<dots> \<subseteq> set (timers (fold (arm lat) rs (arm lat q w)))" by (rule Cons.IH)
  finally show ?case by simp
qed

text \<open>
  When the step changes and the light effect runs again, every task that was pending
  stays pending: the effect has no cleanup function.
\<close>

lemma commit_keeps:
  assumes "isGameLive s' = isGameLive (app w)" and "x \<in> set (timers w)"
  shows "x \<in> set (timers (commit lat s' rs w))"
proof -
  have "set (timers w) \<subseteq> set (timers (fold (arm lat) rs (w\<lparr>app := s'\<rparr>)))"
    using timers_fold_arm [of "w\<lparr>app := s'\<rparr>" lat rs] by simp
  also have "\<dots> \<subseteq> set (timers (commit lat s' rs w))"
    using assms(1) by (simp add: commit_def Let_def light_effect_def timers_fold_arm)
  finally show ?thesis using assms(2) by blast
qed


section \<open>The step values\<close>









section \<open>The solved cards\<close>

lemma solved_handle:
  "solved_ok s \<Longrightarrow> handle K P e s = Some (s', rs)
   \<Longrightarrow> solved_ok s' \<and> list_all (\<lambda>q. solved_cb (request_cb q)) rs"
  by (cases e)
     (auto simp: solved_ok_def fresh_active_def handleNameSubmit_def handlePrev_def
        handleNext_def clickCard_def openCard_def closeCard_def submitCardAnswer_def
        submitFinalAnswer_def Let_def split: if_splits option.splits)

lemma solved_callback:
  "solved_ok s \<Longrightarrow> solved_cb c \<Longrightarrow> run_callback K t c s = (s', rs, b)
   \<Longrightarrow> solved_ok s' \<and> list_all (\<lambda>q. solved_cb (request_cb q)) rs"
  by (cases c)
     (auto simp: solved_ok_def fresh_active_def handleError_def closeCard_def truthy_def
        Let_def split: if_splits option.splits)

lemma solved_light: "list_all (\<lambda>q. solved_cb (request_cb q)) (light_timers st)"
  by (simp add: light_timers_def)

text \<open>
  The click handler does not open a card whose id is in \<open>solvedCards\<close>. So in every
  world reached from mounting, \<open>solvedCards\<close> has no duplicates and the active card,
  if there is one, is not in it. The commit itself has no membership test: it writes
  the captured list with the active id appended.
\<close>

lemma solved_cards_distinct:
  assumes "run K P evs (mount K t0) = Some w"
  shows "distinct (solvedCards (user (app w)))
       \<and> (\<forall>a. activeCardId (app w) = Some a \<longrightarrow> a \<notin> set (solvedCards (user (app w))))
       \<and> (\<forall>n cs s t. n \<noteq> 0 \<longrightarrow>
             solvedCards (user (fst (run_callback K t (CloseReset True (Some n) cs) s))) = cs @ [n])"
proof -
  have "world_inv solved_ok solved_cb (mount K t0)"
    by (rule world_inv_mount) (simp_all add: initial_state_def solved_ok_def fresh_active_def)
  then have "world_inv solved_ok solved_cb w"
    using assms
    by (rule world_inv_run [where S = solved_ok and C = solved_cb, rotated 4])
       (auto dest: solved_handle solved_callback simp: solved_light)
  then have "solved_ok (app w)"
    by (simp add: world_inv_def)
  then show ?thesis
    by (simp add: solved_ok_def fresh_active_def truthy_def split: option.splits)
qed

text \<open>
  C2 with the confirm button clicked twice before the first digest is done. One card
  is open and unlocked at 4200, the correct answer is typed, and both clicks belong to
  the render in which \<open>isAnimating\<close> is false; the digests take 1 ms and 2 ms. The
  first continuation runs at 4201: \<open>closeCard(true)\<close> sets the lock. The second runs
  at 4202: its \<open>closeCard(true)\<close> reads \<open>isAnimating\<close> from its own render and is not
  dropped, so two shrink timeouts are pending. At 5401 the first commit writes
  \<open>solvedCards = [1]\<close> and arms the timeout towards \<open>LIGHT_1\<close> for 6201. At 5402
  the card is committed again, its id being in \<open>solvedCards\<close> by now: the list and the
  count stay as they are, and the timeout towards \<open>LIGHT_1\<close> is armed a second time,
  for 6202. Both run: \<open>setStep(AppStep.LIGHT_1)\<close> is called at 6201 and at 6202.
\<close>

theorem double_confirm_rearms_LIGHT_1:
  "map_option (\<lambda>w. (solvedCards (user (app w)), isAnimating (app w), glance w))
       (run one_card toy_platform (confirm_twice_fast @ [Fire, Fire]) (mount one_card 2000))
     = Some ([], True, 4202, Some CAROUSEL,
             [(4801, CloseShrink True (Some 1) []), (4802, CloseShrink True (Some 1) [])])
   \<and> map_option (\<lambda>w. (solvedCards (user (app w)), isAnimating (app w), glance w))
       (run one_card toy_platform (confirm_twice_fast @ [Fire, Fire, Fire, Fire, Fire])
          (mount one_card 2000))
     = Some ([1], False, 5401, Some CAROUSEL,
             [(5402, CloseReset True (Some 1) []), (6201, SetStep (Some LIGHT_1))])
   \<and> map_option (\<lambda>w. (solvedCards (user (app w)), isAnimating (app w), glance w))
       (run one_card toy_platform (confirm_twice_fast @ [Fire, Fire, Fire, Fire, Fire, Fire])
          (mount one_card 2000))
     = Some ([1], False, 5402, Some CAROUSEL,
             [(6201, SetStep (Some LIGHT_1)), (6202, SetStep (Some LIGHT_1))])
   \<and> map_option (\<lambda>w. (solvedCards (user (app w)), isAnimating (app w), glance w))
       (run one_card toy_platform
          (confirm_twice_fast @ [Fire, Fire, Fire, Fire, Fire, Fire, Fire]) (mount one_card 2000))
     = Some ([1], False, 6201, Some LIGHT_1,
             [(6202, SetStep (Some LIGHT_1)), (8701, SetStep (Some LIGHT_2))])
   \<and> map_option (\<lambda>w. (solvedCards (user (app w)), isAnimating (app w), glance w))
       (run one_card toy_platform
          (confirm_twice_fast @ [Fire, Fire, Fire, Fire, Fire, Fire, Fire, Fire]) (mount one_card 2000))
     = Some ([1], False, 6202, Some LIGHT_1, [(8701, SetStep (Some LIGHT_2))])"
  by (simp add: example_defs model_defs)

end
